theory Spec2Isabelle
  imports Main "HOL-Library.Sublist" "HOL-Library.Char_ord" "HOL-Library.List_Lexorder"
    "HOL-Library.Product_Lexorder"
begin

section \<open>Strings and the regular expressions of the title normalizer\<close>

text \<open>
  A Python \<open>str\<close> is modelled as a \<^typ>\<open>string\<close>; a \<^typ>\<open>char\<close> stands for one code
  point below 256. \<open>is_space\<close> is Python's \<open>str.isspace\<close> on these code points, which
  is also the class \<open>\s\<close> of \<open>re\<close> on a \<open>str\<close> pattern. The dot of \<open>re\<close> matches every
  character but the line feed.
\<close>

definition newline :: char where
  "newline = CHR 0x0A"

definition is_space :: "char \<Rightarrow> bool" where
  "is_space c = (let n = (of_char c :: nat) in
     (9 \<le> n \<and> n \<le> 13) \<or> (28 \<le> n \<and> n \<le> 32) \<or> n = 133 \<or> n = 160)"

definition is_dot :: "char \<Rightarrow> bool" where
  "is_dot c = (c \<noteq> newline)"

text \<open>
  \<open>match_enclosed l r s\<close> is one match attempt of the pattern \<open>\s*L.*?R\s*\<close> at the start
  of \<open>s\<close>, for an opening delimiter \<open>l\<close> and a closing delimiter \<open>r\<close>; it returns the text
  after the match. The greedy \<open>\s*\<close> takes the whole run of white space (a shorter run
  leaves a white-space character where the delimiter must stand), the lazy \<open>.*?\<close> stops at
  the first closing delimiter and cannot step over a line feed, and the final \<open>\s*\<close> takes
  the whole run of white space again.
\<close>

definition match_enclosed :: "char \<Rightarrow> char \<Rightarrow> string \<Rightarrow> string option" where
  "match_enclosed l r s =
     (case dropWhile is_space s of
        [] \<Rightarrow> None
      | c # rest \<Rightarrow>
          if c = l then
            (case dropWhile (\<lambda>x. x \<noteq> r \<and> is_dot x) rest of
               [] \<Rightarrow> None
             | d # tail \<Rightarrow> if d = r then Some (dropWhile is_space tail) else None)
          else None)"

text \<open>One match attempt of \<open>\s*-.*\<close>: white space, a hyphen, the rest of the line.\<close>

definition match_hyphen :: "string \<Rightarrow> string option" where
  "match_hyphen s =
     (case dropWhile is_space s of
        [] \<Rightarrow> None
      | c # rest \<Rightarrow> if c = CHR ''-'' then Some (dropWhile is_dot rest) else None)"

text \<open>
  \<open>re_sub m s\<close> is \<open>re.sub(pattern, '', s)\<close> for a pattern whose match attempt is \<open>m\<close> and
  that matches no empty text: the scan goes from left to right; where the pattern matches,
  the matched text is dropped and the scan goes on after it; elsewhere the character is
  kept and the scan moves one place. Every match of the two patterns above is a proper
  suffix of the text it was tried on (lemmas \<open>match_enclosed_shorter\<close> and
  \<open>match_hyphen_shorter\<close>), so the test on the lengths always succeeds for them; it is
  there for the termination of the scan with an arbitrary \<open>m\<close>.
\<close>

function re_sub :: "(string \<Rightarrow> string option) \<Rightarrow> string \<Rightarrow> string" where
  "re_sub m [] = []"
| "re_sub m (x # xs) =
     (case m (x # xs) of
        Some t \<Rightarrow> if length t < length (x # xs) then re_sub m t else x # re_sub m xs
      | None \<Rightarrow> x # re_sub m xs)"
  by pat_completeness auto
termination
  by (relation "measure (\<lambda>(m, s). length s)") auto

text \<open>\<open>str.strip()\<close>: the white space at both ends is removed.\<close>

definition strip :: "string \<Rightarrow> string" where
  "strip s = rev (dropWhile is_space (rev (dropWhile is_space s)))"

definition clean_song_title :: "string \<Rightarrow> string" where
  "clean_song_title title =
     (let title = re_sub (match_enclosed CHR ''('' CHR '')'') title;
          title = re_sub (match_enclosed CHR ''['' CHR '']'') title;
          title = re_sub (match_enclosed CHR ''{'' CHR ''}'') title;
          title = re_sub match_hyphen title
      in strip title)"

section \<open>The date parser\<close>

text \<open>
  \<open>datetime.strptime\<close> for the three formats of \<open>try_parsing_date\<close>. A parsed date is
  the triple (year, month, day) of the \<open>datetime\<close>, whose time of day is midnight; triples
  are compared as Python compares \<open>datetime\<close> values, by year, then month, then day.
  \<open>None\<close> stands for the \<open>ValueError\<close> of \<open>strptime\<close>.
\<close>

datatype date_format = FmtYMD | FmtYM | FmtY

type_synonym datetime = "nat \<times> nat \<times> nat"

definition is_digit :: "char \<Rightarrow> bool" where
  "is_digit c = (48 \<le> (of_char c :: nat) \<and> (of_char c :: nat) \<le> 57)"

definition digit_val :: "char \<Rightarrow> nat" where
  "digit_val c = of_char c - 48"

text \<open>The directive \<open>%Y\<close> is the group \<open>\d\d\d\d\<close>.\<close>

fun directive_Y :: "string \<Rightarrow> (nat \<times> string) option" where
  "directive_Y (a # b # c # d # rest) =
     (if is_digit a \<and> is_digit b \<and> is_digit c \<and> is_digit d
      then Some (1000 * digit_val a + 100 * digit_val b + 10 * digit_val c + digit_val d, rest)
      else None)"
| "directive_Y _ = None"

text \<open>
  The directive \<open>%m\<close> is \<open>1[0-2]|0[1-9]|[1-9]\<close> and \<open>%d\<close> is
  \<open>3[0-1]|[1-2]\d|0[1-9]|[1-9]| [1-9]\<close>. Each function lists the alternatives that match
  at the start of the text, in the order in which the regular expression tries them, with
  the number read and the text that follows.
\<close>

definition two_digits :: "(char \<Rightarrow> bool) \<Rightarrow> (char \<Rightarrow> bool) \<Rightarrow> string \<Rightarrow> (nat \<times> string) list" where
  "two_digits p q s =
     (case s of
        a # b # rest \<Rightarrow>
          if p a \<and> q b
          then [((if is_digit a then 10 * digit_val a else 0) + digit_val b, rest)] else []
      | _ \<Rightarrow> [])"

definition one_digit :: "string \<Rightarrow> (nat \<times> string) list" where
  "one_digit s =
     (case s of
        a # rest \<Rightarrow> if is_digit a \<and> a \<noteq> CHR ''0'' then [(digit_val a, rest)] else []
      | [] \<Rightarrow> [])"

definition directive_m :: "string \<Rightarrow> (nat \<times> string) list" where
  "directive_m s =
     two_digits (\<lambda>a. a = CHR ''1'') (\<lambda>b. b \<in> set ''012'') s
     @ two_digits (\<lambda>a. a = CHR ''0'') (\<lambda>b. is_digit b \<and> b \<noteq> CHR ''0'') s
     @ one_digit s"

definition directive_d :: "string \<Rightarrow> (nat \<times> string) list" where
  "directive_d s =
     two_digits (\<lambda>a. a = CHR ''3'') (\<lambda>b. b \<in> set ''01'') s
     @ two_digits (\<lambda>a. a \<in> set ''12'') is_digit s
     @ two_digits (\<lambda>a. a = CHR ''0'') (\<lambda>b. is_digit b \<and> b \<noteq> CHR ''0'') s
     @ one_digit s
     @ two_digits (\<lambda>a. a = CHR '' '') (\<lambda>b. is_digit b \<and> b \<noteq> CHR ''0'') s"

definition hyphen :: "string \<Rightarrow> string option" where
  "hyphen s = (case s of c # rest \<Rightarrow> if c = CHR ''-'' then Some rest else None | [] \<Rightarrow> None)"

text \<open>The first alternative of a list for which the rest of the pattern matches.\<close>

fun first_match :: "('a \<Rightarrow> 'b option) \<Rightarrow> 'a list \<Rightarrow> 'b option" where
  "first_match f [] = None"
| "first_match f (x # xs) = (case f x of Some y \<Rightarrow> Some y | None \<Rightarrow> first_match f xs)"

text \<open>
  \<open>format_match fmt text\<close> is \<open>format_regex.match(text)\<close>: the fields found and the text
  left after the match. A field that the format does not name is 1.
\<close>

fun format_match :: "date_format \<Rightarrow> string \<Rightarrow> (datetime \<times> string) option" where
  "format_match FmtY s =
     (case directive_Y s of None \<Rightarrow> None | Some (y, r1) \<Rightarrow> Some ((y, 1, 1), r1))"
| "format_match FmtYM s =
     (case directive_Y s of
        None \<Rightarrow> None
      | Some (y, r1) \<Rightarrow>
          (case hyphen r1 of
             None \<Rightarrow> None
           | Some r2 \<Rightarrow> first_match (\<lambda>(m, r3). Some ((y, m, 1), r3)) (directive_m r2)))"
| "format_match FmtYMD s =
     (case directive_Y s of
        None \<Rightarrow> None
      | Some (y, r1) \<Rightarrow>
          (case hyphen r1 of
             None \<Rightarrow> None
           | Some r2 \<Rightarrow>
               first_match
                 (\<lambda>(m, r3).
                    case hyphen r3 of
                      None \<Rightarrow> None
                    | Some r4 \<Rightarrow> first_match (\<lambda>(d, r5). Some ((y, m, d), r5)) (directive_d r4))
                 (directive_m r2)))"

definition is_leap :: "nat \<Rightarrow> bool" where
  "is_leap y = (y mod 4 = 0 \<and> (y mod 100 \<noteq> 0 \<or> y mod 400 = 0))"

definition days_in_month :: "nat \<Rightarrow> nat \<Rightarrow> nat" where
  "days_in_month y m =
     (if m = 2 then (if is_leap y then 29 else 28)
      else if m \<in> set [4, 6, 9, 11] then 30 else 31)"

text \<open>The checks of the \<open>datetime\<close> constructor: the year is at least \<open>MINYEAR\<close>.\<close>

definition valid_date :: "datetime \<Rightarrow> bool" where
  "valid_date dt =
     (case dt of (y, m, d) \<Rightarrow>
        1 \<le> y \<and> y \<le> 9999 \<and> 1 \<le> m \<and> m \<le> 12 \<and> 1 \<le> d \<and> d \<le> days_in_month y m)"

text \<open>
  \<open>strptime\<close> fails when the text does not match the format, when text is left after
  the match (unconverted data remains) and when the fields are no date.
\<close>

definition strptime :: "string \<Rightarrow> date_format \<Rightarrow> datetime option" where
  "strptime s fmt =
     (case format_match fmt s of
        None \<Rightarrow> None
      | Some (dt, rest) \<Rightarrow> if rest = [] \<and> valid_date dt then Some dt else None)"

definition date_formats :: "date_format list" where
  "date_formats = [FmtYMD, FmtYM, FmtY]"

fun try_formats :: "string \<Rightarrow> date_format list \<Rightarrow> datetime option" where
  "try_formats s [] = None"
| "try_formats s (fmt # fmts) =
     (case strptime s fmt of Some dt \<Rightarrow> Some dt | None \<Rightarrow> try_formats s fmts)"

definition try_parsing_date :: "string \<Rightarrow> datetime option" where
  "try_parsing_date s = try_formats s date_formats"

section \<open>JSON values and the Python operations on them\<close>

text \<open>
  The items of the Spotify listing and the bodies of the Discogs, MusicBrainz and Spotify
  answers are decoded JSON: \<open>None\<close>, booleans, numbers (integers here), strings, lists and
  dictionaries. A dictionary is the list of its items, looked up with \<^const>\<open>map_of\<close>.
\<close>

datatype json =
    JNull
  | JBool bool
  | JNum int
  | JStr string
  | JArr "json list"
  | JObj "(string \<times> json) list"

datatype error =
    KeyError | TypeError | IndexError | AttributeError | ValueError
  | SpotifyException | ImageError

definition bind_err :: "error + 'a \<Rightarrow> ('a \<Rightarrow> error + 'b) \<Rightarrow> error + 'b" where
  "bind_err m f = (case m of Inl e \<Rightarrow> Inl e | Inr x \<Rightarrow> f x)"

text \<open>A loop or comprehension whose body may raise: the first exception ends it.\<close>

fun map_err :: "('a \<Rightarrow> error + 'b) \<Rightarrow> 'a list \<Rightarrow> error + 'b list" where
  "map_err f [] = Inr []"
| "map_err f (x # xs) =
     (case f x of
        Inl e \<Rightarrow> Inl e
      | Inr y \<Rightarrow> (case map_err f xs of Inl e \<Rightarrow> Inl e | Inr ys \<Rightarrow> Inr (y # ys)))"

fun filter_err :: "('a \<Rightarrow> error + bool) \<Rightarrow> 'a list \<Rightarrow> error + 'a list" where
  "filter_err f [] = Inr []"
| "filter_err f (x # xs) =
     (case f x of
        Inl e \<Rightarrow> Inl e
      | Inr b \<Rightarrow>
          (case filter_err f xs of
             Inl e \<Rightarrow> Inl e
           | Inr ys \<Rightarrow> Inr (if b then x # ys else ys)))"

text \<open>\<open>x[k]\<close> for a string \<open>k\<close>.\<close>

fun py_getitem :: "json \<Rightarrow> string \<Rightarrow> error + json" where
  "py_getitem (JObj kvs) k = (case map_of kvs k of None \<Rightarrow> Inl KeyError | Some v \<Rightarrow> Inr v)"
| "py_getitem _ k = Inl TypeError"

text \<open>\<open>x[0]\<close>.\<close>

fun py_getitem0 :: "json \<Rightarrow> error + json" where
  "py_getitem0 (JArr []) = Inl IndexError"
| "py_getitem0 (JArr (v # vs)) = Inr v"
| "py_getitem0 (JStr []) = Inl IndexError"
| "py_getitem0 (JStr (c # cs)) = Inr (JStr [c])"
| "py_getitem0 (JObj kvs) = Inl KeyError"
| "py_getitem0 _ = Inl TypeError"

text \<open>The truth value of \<open>x\<close> in a condition.\<close>

fun py_truthy :: "json \<Rightarrow> bool" where
  "py_truthy JNull = False"
| "py_truthy (JBool b) = b"
| "py_truthy (JNum n) = (n \<noteq> 0)"
| "py_truthy (JStr s) = (s \<noteq> [])"
| "py_truthy (JArr vs) = (vs \<noteq> [])"
| "py_truthy (JObj kvs) = (kvs \<noteq> [])"

fun is_substring :: "string \<Rightarrow> string \<Rightarrow> bool" where
  "is_substring k [] = (k = [])"
| "is_substring k (c # cs) = (prefix k (c # cs) \<or> is_substring k cs)"

text \<open>
  \<open>k in x\<close> for a string \<open>k\<close>: a key of a dictionary, an element of a list, a substring of
  a string; anything else is not iterable.
\<close>

fun py_contains :: "string \<Rightarrow> json \<Rightarrow> error + bool" where
  "py_contains k (JObj kvs) = Inr (k \<in> set (map fst kvs))"
| "py_contains k (JArr vs) = Inr (JStr k \<in> set vs)"
| "py_contains k (JStr s) = Inr (is_substring k s)"
| "py_contains k _ = Inl TypeError"

text \<open>\<open>for v in x\<close>: the elements of a list, the keys of a dictionary, the characters of a string.\<close>

fun py_iter :: "json \<Rightarrow> error + json list" where
  "py_iter (JArr vs) = Inr vs"
| "py_iter (JObj kvs) = Inr (map (\<lambda>kv. JStr (fst kv)) kvs)"
| "py_iter (JStr s) = Inr (map (\<lambda>c. JStr [c]) s)"
| "py_iter _ = Inl TypeError"

text \<open>\<open>x.split('-')[0]\<close>: the text before the first hyphen; only a string has \<open>split\<close>.\<close>

fun py_split_first :: "json \<Rightarrow> error + json" where
  "py_split_first (JStr s) = Inr (JStr (takeWhile (\<lambda>c. c \<noteq> CHR ''-'') s))"
| "py_split_first _ = Inl AttributeError"

text \<open>\<open>strptime\<close> takes a string only; the \<open>TypeError\<close> is not caught by \<open>try_parsing_date\<close>.\<close>

fun try_parsing_date_py :: "json \<Rightarrow> error + datetime option" where
  "try_parsing_date_py (JStr s) = Inr (try_parsing_date s)"
| "try_parsing_date_py _ = Inl TypeError"

definition NA :: json where
  "NA = JStr ''N/A''"

section \<open>The outside world\<close>

text \<open>
  The answer of an HTTP server is its status code and its body as \<open>response.json()\<close>
  decodes it, \<open>None\<close> when the body is no JSON and \<open>json()\<close> raises a \<open>ValueError\<close>.
  \<open>requests.get\<close> gives an answer or raises a \<open>RequestException\<close> (\<open>None\<close> here).
  The servers are functions of the request, and every function that sends requests returns
  the list of the requests it sent, in order.
\<close>

datatype response = Response nat "json option"

datatype request =
    DiscogsSearch json json
  | MusicBrainzSearch json string
  | SpotifyAlbum json

datatype qr_image = QRCode json | Overlay qr_image

record env =
  discogs_server :: "json \<Rightarrow> json \<Rightarrow> response option"
  musicbrainz_server :: "json \<Rightarrow> string \<Rightarrow> response option"
  spotify_album :: "json \<Rightarrow> error + json"
  spotify_next :: "json \<Rightarrow> error + json"
  qr_make :: "json \<Rightarrow> error + qr_image"
  qr_overlay :: "qr_image \<Rightarrow> error + qr_image"

text \<open>\<open>response.raise_for_status()\<close> raises for the status codes 400 to 599.\<close>

definition raises_for_status :: "nat \<Rightarrow> bool" where
  "raises_for_status status = (400 \<le> status \<and> status < 600)"

section \<open>Sorting\<close>

text \<open>
  \<open>list.sort(key=...)\<close> computes the key of every element first, then sorts stably and
  compares keys with each other. Numbers (and booleans, which are numbers) compare with each
  other and strings with each other, by code points; \<open>None\<close>, a dictionary, or a number
  against a string raises \<open>TypeError\<close>. A sort of two or more elements compares every
  element with another one, so with keys of these kinds it raises if and only if the keys
  are not all numbers or all strings. Keys that are lists are not modelled: they are
  reported as \<open>TypeError\<close>, although Python orders lists element by element.
\<close>

fun is_num :: "json \<Rightarrow> bool" where
  "is_num (JNum n) = True"
| "is_num (JBool b) = True"
| "is_num _ = False"

fun num_val :: "json \<Rightarrow> int" where
  "num_val (JNum n) = n"
| "num_val (JBool b) = (if b then 1 else 0)"
| "num_val _ = 0"

fun is_str :: "json \<Rightarrow> bool" where
  "is_str (JStr s) = True"
| "is_str _ = False"

fun str_val :: "json \<Rightarrow> string" where
  "str_val (JStr s) = s"
| "str_val _ = []"

definition py_sort_by :: "('a \<Rightarrow> error + json) \<Rightarrow> 'a list \<Rightarrow> error + 'a list" where
  "py_sort_by key xs =
     (case map_err key xs of
        Inl e \<Rightarrow> Inl e
      | Inr keys \<Rightarrow>
          if length xs < 2 then Inr xs
          else if list_all is_num keys
            then Inr (map snd (sort_key (\<lambda>kx. num_val (fst kx)) (zip keys xs)))
          else if list_all is_str keys
            then Inr (map snd (sort_key (\<lambda>kx. str_val (fst kx)) (zip keys xs)))
          else Inl TypeError)"

text \<open>
  The same for keys that are the results of \<open>try_parsing_date\<close>: dates compare with each
  other, \<open>None\<close> with nothing.
\<close>

definition py_sort_by_date :: "('a \<Rightarrow> error + datetime option) \<Rightarrow> 'a list \<Rightarrow> error + 'a list" where
  "py_sort_by_date key xs =
     (case map_err key xs of
        Inl e \<Rightarrow> Inl e
      | Inr keys \<Rightarrow>
          if length xs < 2 then Inr xs
          else (case those keys of
                  Some dts \<Rightarrow> Inr (map snd (sort_key fst (zip dts xs)))
                | None \<Rightarrow> Inl TypeError))"

section \<open>The MusicBrainz stage\<close>

text \<open>One element of the list comprehension: the tuple (title, date, artist) of a release.\<close>

definition release_tuple :: "json \<Rightarrow> error + json \<times> json \<times> json" where
  "release_tuple release =
     bind_err (py_getitem release ''title'') (\<lambda>title.
     bind_err (py_getitem release ''date'') (\<lambda>d.
     bind_err (try_parsing_date_py d) (\<lambda>parsed.
     bind_err (if parsed \<noteq> None then py_getitem release ''date'' else Inr NA) (\<lambda>date.
     bind_err (py_contains ''artist-credit'' release) (\<lambda>has.
     bind_err (if has then py_getitem release ''artist-credit'' else Inr (JBool False)) (\<lambda>credit.
     bind_err (if py_truthy credit
               then bind_err (py_getitem0 credit) (\<lambda>c0.
                    bind_err (py_getitem c0 ''artist'') (\<lambda>a. py_getitem a ''name''))
               else Inr NA) (\<lambda>artist.
     Inr (title, date, artist))))))))"

fun release_tuples :: "json list \<Rightarrow> error + (json \<times> json \<times> json) list" where
  "release_tuples [] = Inr []"
| "release_tuples (release # rest) =
     (case py_contains ''date'' release of
        Inl e \<Rightarrow> Inl e
      | Inr has_date \<Rightarrow>
          if has_date then
            (case release_tuple release of
               Inl e \<Rightarrow> Inl e
             | Inr t \<Rightarrow> (case release_tuples rest of Inl e \<Rightarrow> Inl e | Inr ts \<Rightarrow> Inr (t # ts)))
          else release_tuples rest)"

text \<open>
  The part of \<open>get_release_year_musicbrainz\<close> after the recordings were read: the releases
  of the first recording, filtered, sorted by parsed date, the date of the first one.
\<close>

definition earliest_release :: "json \<Rightarrow> error + json" where
  "earliest_release recordings =
     bind_err (py_getitem0 recordings) (\<lambda>recording.
     bind_err (py_getitem recording ''releases'') (\<lambda>rels.
     bind_err (py_iter rels) (\<lambda>items.
     bind_err (release_tuples items) (\<lambda>releases.
       let releases = filter (\<lambda>release. snd (snd release) \<noteq> JStr ''Various Artists'') releases;
           releases = filter (\<lambda>release. fst (snd release) \<noteq> NA) releases
       in bind_err (py_sort_by_date (\<lambda>x. try_parsing_date_py (fst (snd x))) releases) (\<lambda>releases.
            case releases of
              [] \<Rightarrow> Inr NA
            | release # _ \<Rightarrow> Inr (fst (snd release)))))))"

text \<open>
  \<open>requests\<close>' failures and the \<open>KeyError\<close> and \<open>ValueError\<close> of reading the recordings are
  caught and give \<open>"N/A"\<close>; everything else that is raised leaves the function.
  \<open>clean_song_title\<close> takes a string only (\<open>re.sub\<close> raises \<open>TypeError\<close> otherwise).
\<close>

definition get_release_year_musicbrainz :: "env \<Rightarrow> json \<Rightarrow> json \<Rightarrow> request list \<times> (error + json)" where
  "get_release_year_musicbrainz world artist_name song_title =
     (case song_title of
        JStr t \<Rightarrow>
          (let song_title = clean_song_title t in
           ([MusicBrainzSearch artist_name song_title],
            (case musicbrainz_server world artist_name song_title of
               None \<Rightarrow> Inr NA
             | Some (Response status body) \<Rightarrow>
                 if raises_for_status status then Inr NA
                 else if status = 200 then
                   (case body of
                      None \<Rightarrow> Inr NA
                    | Some j \<Rightarrow>
                        (case py_getitem j ''recordings'' of
                           Inl e \<Rightarrow> if e = KeyError \<or> e = ValueError then Inr NA else Inl e
                         | Inr recordings \<Rightarrow>
                             if \<not> py_truthy recordings then Inr NA
                             else earliest_release recordings))
                 else Inr NA)))
      | _ \<Rightarrow> ([], Inl TypeError))"

section \<open>The release-year resolver\<close>

text \<open>The last branch: the release date of the item's album, asked from Spotify.\<close>

definition spotify_release_year :: "env \<Rightarrow> json \<Rightarrow> request list \<times> (error + json)" where
  "spotify_release_year world item =
     (case bind_err (py_getitem item ''album'') (\<lambda>album. py_getitem album ''id'') of
        Inl e \<Rightarrow> ([], Inl e)
      | Inr album_id \<Rightarrow>
          ([SpotifyAlbum album_id],
           bind_err (spotify_album world album_id) (\<lambda>album.
           bind_err (py_contains ''release_date'' album) (\<lambda>has.
             if has then bind_err (py_getitem album ''release_date'') py_split_first
             else Inr NA))))"

definition extract_year_from_discogs_data ::
    "env \<Rightarrow> json \<Rightarrow> json \<Rightarrow> json \<Rightarrow> json \<Rightarrow> request list \<times> (error + json)" where
  "extract_year_from_discogs_data world discogs_data artist title item =
     (case py_contains ''results'' discogs_data of
        Inl e \<Rightarrow> ([], Inl e)
      | Inr has_results \<Rightarrow>
          if has_results then
            (case bind_err (py_getitem discogs_data ''results'') (\<lambda>results.
                  bind_err (py_iter results) (\<lambda>results.
                  bind_err (filter_err (py_contains ''year'') results) (\<lambda>results_with_year.
                    py_sort_by (\<lambda>x. py_getitem x ''year'') results_with_year))) of
               Inl e \<Rightarrow> ([], Inl e)
             | Inr results_with_year \<Rightarrow>
                 (case results_with_year of
                    first # _ \<Rightarrow> ([], py_getitem first ''year'')
                  | [] \<Rightarrow>
                      (case get_release_year_musicbrainz world artist title of
                         (sent, Inl e) \<Rightarrow> (sent, Inl e)
                       | (sent, Inr date) \<Rightarrow>
                           if date \<noteq> NA then (sent, py_split_first date) else (sent, Inr NA))))
          else
            (case get_release_year_musicbrainz world artist title of
               (sent, Inl e) \<Rightarrow> (sent, Inl e)
             | (sent, Inr date) \<Rightarrow>
                 if date \<noteq> NA then (sent, py_split_first date)
                 else (case spotify_release_year world item of
                         (sent', r) \<Rightarrow> (sent @ sent', r))))"

section \<open>The track pipeline\<close>

record track_info =
  ti_id :: json
  ti_name :: json
  ti_artists :: "json list"
  ti_album :: json
  ti_url :: json

text \<open>
  The body of the \<open>try\<close> of \<open>extract_track_info\<close>, in the order of the source, and the
  function itself, which turns every exception into \<open>None\<close>.
\<close>

definition track_info_of :: "json \<Rightarrow> string \<Rightarrow> error + track_info" where
  "track_info_of item spotify_type =
     bind_err (if spotify_type = ''playlist'' then py_getitem item ''track'' else Inr item) (\<lambda>track_data.
     bind_err (py_getitem track_data ''id'') (\<lambda>track_id.
     bind_err (py_getitem track_data ''name'') (\<lambda>name.
     bind_err (bind_err (py_getitem track_data ''external_urls'') (\<lambda>u. py_getitem u ''spotify'')) (\<lambda>url.
     bind_err (bind_err (py_getitem track_data ''artists'') py_iter) (\<lambda>artist_items.
     bind_err (map_err (\<lambda>artist. py_getitem artist ''name'') artist_items) (\<lambda>artists.
     bind_err (py_contains ''album'' track_data) (\<lambda>has_album.
     bind_err (if has_album
               then bind_err (py_getitem track_data ''album'') (\<lambda>a. py_getitem a ''name'')
               else Inr JNull) (\<lambda>album.
     Inr \<lparr>ti_id = track_id, ti_name = name, ti_artists = artists, ti_album = album,
           ti_url = url\<rparr>))))))))"

definition extract_track_info :: "json \<Rightarrow> string \<Rightarrow> track_info option" where
  "extract_track_info item spotify_type =
     (case track_info_of item spotify_type of Inl e \<Rightarrow> None | Inr info \<Rightarrow> Some info)"

text \<open>
  \<open>fetch_discogs_data\<close>: a failure of \<open>requests\<close> gives \<open>None\<close> (\<^const>\<open>JNull\<close>); the call of
  \<open>response.json()\<close> stands after the \<open>try\<close>, so its \<open>ValueError\<close> leaves the function.
\<close>

definition fetch_discogs_data :: "env \<Rightarrow> json \<Rightarrow> json \<Rightarrow> request list \<times> (error + json)" where
  "fetch_discogs_data world artist title =
     ([DiscogsSearch artist title],
      (case discogs_server world artist title of
         None \<Rightarrow> Inr JNull
       | Some (Response status body) \<Rightarrow>
           if raises_for_status status then Inr JNull
           else (case body of None \<Rightarrow> Inl ValueError | Some j \<Rightarrow> Inr j)))"

text \<open>The dictionary \<open>data\<close> of \<open>main\<close>, with its five lists.\<close>

record data =
  Artist :: "json list"
  Title :: "json list"
  Year :: "json list"
  URL :: "json list"
  QR_Code :: "qr_image list"

definition empty_data :: data where
  "empty_data = \<lparr>Artist = [], Title = [], Year = [], URL = [], QR_Code = []\<rparr>"

definition append_track :: "data \<Rightarrow> json \<Rightarrow> json \<Rightarrow> json \<Rightarrow> json \<Rightarrow> qr_image \<Rightarrow> data" where
  "append_track d artist title year url qr_img =
     \<lparr>Artist = Artist d @ [artist], Title = Title d @ [title], Year = Year d @ [year],
      URL = URL d @ [url], QR_Code = QR_Code d @ [qr_img]\<rparr>"

text \<open>
  \<open>add_track_to_data\<close> returns the requests sent, the exception that left it, if any, and
  the data. An exception leaves the data as they were: the five \<open>append\<close>s are the last
  statements.
\<close>

text \<open>\<open>track_info['artists'][0] if track_info['artists'] else None\<close>\<close>

definition first_artist :: "json list \<Rightarrow> json" where
  "first_artist artists = (case artists of [] \<Rightarrow> JNull | a # _ \<Rightarrow> a)"

definition add_track_to_data ::
    "env \<Rightarrow> json \<Rightarrow> data \<Rightarrow> string \<Rightarrow> request list \<times> error option \<times> data" where
  "add_track_to_data world item d spotify_type =
     (case extract_track_info item spotify_type of
        None \<Rightarrow> ([], None, d)
      | Some info \<Rightarrow>
          (let artist = first_artist (ti_artists info);
               title = ti_name info
           in case fetch_discogs_data world artist title of
                (sent, Inl e) \<Rightarrow> (sent, Some e, d)
              | (sent, Inr discogs_data) \<Rightarrow>
                  if discogs_data = JNull then (sent, None, d)
                  else
                    (case extract_year_from_discogs_data world discogs_data artist title item of
                       (sent', Inl e) \<Rightarrow> (sent @ sent', Some e, d)
                     | (sent', Inr year) \<Rightarrow>
                         (let url = ti_url info in
                          case bind_err (qr_make world url) (qr_overlay world) of
                            Inl e \<Rightarrow> (sent @ sent', Some e, d)
                          | Inr qr_img \<Rightarrow>
                              (sent @ sent', None, append_track d artist title year url qr_img)))))"

text \<open>The loop of \<open>add_tracks_to_data\<close> over the items of one page.\<close>

fun add_items :: "env \<Rightarrow> json list \<Rightarrow> data \<Rightarrow> string \<Rightarrow> request list \<times> error option \<times> data" where
  "add_items world [] d spotify_type = ([], None, d)"
| "add_items world (item # items) d spotify_type =
     (case add_track_to_data world item d spotify_type of
        (sent, Some e, d') \<Rightarrow> (sent, Some e, d')
      | (sent, None, d') \<Rightarrow>
          (case add_items world items d' spotify_type of
             (sent', r, d'') \<Rightarrow> (sent @ sent', r, d'')))"

definition add_tracks_to_data ::
    "env \<Rightarrow> json \<Rightarrow> data \<Rightarrow> string \<Rightarrow> request list \<times> error option \<times> data" where
  "add_tracks_to_data world results d spotify_type =
     (case bind_err (py_getitem results ''items'') py_iter of
        Inl e \<Rightarrow> ([], Some e, d)
      | Inr items \<Rightarrow> add_items world items d spotify_type)"

text \<open>
  The loop of \<open>fetch_and_add_additional_tracks\<close>. Whether it ends depends on the pages
  that Spotify serves, so it runs on fuel, and it returns the data it has reached also when
  the fuel is used up. A \<open>SpotifyException\<close> from \<open>spotify.next\<close> or from inside
  \<open>add_tracks_to_data\<close> ends the loop; any other exception leaves the function.
\<close>

datatype loop_end = Finished | Raised error | OutOfFuel

fun fetch_and_add_additional_tracks ::
    "nat \<Rightarrow> env \<Rightarrow> json \<Rightarrow> data \<Rightarrow> string \<Rightarrow> request list \<times> loop_end \<times> data" where
  "fetch_and_add_additional_tracks 0 world results d spotify_type = ([], OutOfFuel, d)"
| "fetch_and_add_additional_tracks (Suc fuel) world results d spotify_type =
     (case py_getitem results ''next'' of
        Inl e \<Rightarrow> ([], Raised e, d)
      | Inr next_url \<Rightarrow>
          if \<not> py_truthy next_url then ([], Finished, d)
          else
            (case spotify_next world results of
               Inl e \<Rightarrow> ([], if e = SpotifyException then Finished else Raised e, d)
             | Inr results' \<Rightarrow>
                 (case add_tracks_to_data world results' d spotify_type of
                    (sent, Some e, d') \<Rightarrow>
                      (sent, if e = SpotifyException then Finished else Raised e, d')
                  | (sent, None, d') \<Rightarrow>
                      (case fetch_and_add_additional_tracks fuel world results' d' spotify_type of
                         (sent', r, d'') \<Rightarrow> (sent @ sent', r, d'')))))"

section \<open>Notions used in the properties\<close>


text \<open>
  A MusicBrainz release as the stage reads it: its title, its date if it has one, and the
  name of its first credited artist if it has a credit; and the JSON of such a release.
\<close>

record mb_release =
  rel_title :: string
  rel_date :: "string option"
  rel_credit :: "string option"

definition release_json :: "mb_release \<Rightarrow> json" where
  "release_json r = JObj
     ([(''title'', JStr (rel_title r))]
      @ (case rel_date r of None \<Rightarrow> [] | Some d \<Rightarrow> [(''date'', JStr d)])
      @ (case rel_credit r of
           None \<Rightarrow> []
         | Some n \<Rightarrow> [(''artist-credit'', JArr [JObj [(''artist'', JObj [(''name'', JStr n)])]])]))"

text \<open>
  The MusicBrainz stage in the words of the specification: a release is a candidate when
  it has a date, the date parser reads the date, and it is not credited to
  \<open>Various Artists\<close>; the candidates are sorted by parsed date, ascending, and the date of
  the first one is returned, or \<open>"N/A"\<close> when there is none.
\<close>

definition candidate :: "mb_release \<Rightarrow> (datetime \<times> string) option" where
  "candidate r =
     (case rel_date r of
        None \<Rightarrow> None
      | Some d \<Rightarrow>
          (case try_parsing_date d of
             None \<Rightarrow> None
           | Some dt \<Rightarrow> if rel_credit r = Some ''Various Artists'' then None else Some (dt, d)))"

definition spec_earliest_release :: "mb_release list \<Rightarrow> json" where
  "spec_earliest_release rels =
     (case sort_key fst (List.map_filter candidate rels) of
        [] \<Rightarrow> NA
      | c # _ \<Rightarrow> JStr (snd c))"

text \<open>The tuple that the list comprehension builds from a release, and its parsed date.\<close>

definition tuple_of :: "mb_release \<Rightarrow> json \<times> json \<times> json" where
  "tuple_of r =
     (JStr (rel_title r),
      (case rel_date r of
         None \<Rightarrow> NA
       | Some d \<Rightarrow> if try_parsing_date d \<noteq> None then JStr d else NA),
      (case rel_credit r of None \<Rightarrow> NA | Some n \<Rightarrow> JStr n))"

definition parsed :: "mb_release \<Rightarrow> datetime" where
  "parsed r = fst (the (candidate r))"

text \<open>A request to Discogs that \<open>fetch_discogs_data\<close> answers with \<open>None\<close>.\<close>

fun request_failed :: "response option \<Rightarrow> bool" where
  "request_failed None = True"
| "request_failed (Some (Response status body)) = raises_for_status status"

text \<open>The five lists of the data have the same length.\<close>

definition columns_equal :: "data \<Rightarrow> bool" where
  "columns_equal d =
     (length (Title d) = length (Artist d) \<and> length (Year d) = length (Artist d) \<and>
      length (URL d) = length (Artist d) \<and> length (QR_Code d) = length (Artist d))"



text \<open>A match attempt that leaves a proper suffix of the text it is tried on.\<close>

definition matcher :: "(string \<Rightarrow> string option) \<Rightarrow> bool" where
  "matcher m = (\<forall>u t. m u = Some t \<longrightarrow> suffix t u \<and> length t < length u)"

section \<open>Example worlds and items\<close>

text \<open>
  A world in which every server fails, and variants of it in which one server answers.
  The items have the shapes that Spotify serves: an item of an album listing is a track
  without an \<open>album\<close> field, an item of a playlist listing wraps a full track in \<open>track\<close>.
\<close>

definition quiet_world :: env where
  "quiet_world =
     \<lparr>discogs_server = (\<lambda>artist title. None),
      musicbrainz_server = (\<lambda>artist title. None),
      spotify_album = (\<lambda>album_id. Inl SpotifyException),
      spotify_next = (\<lambda>results. Inl SpotifyException),
      qr_make = (\<lambda>url. Inr (QRCode url)),
      qr_overlay = (\<lambda>img. Inr (Overlay img))\<rparr>"

definition track_fields :: "json list \<Rightarrow> (string \<times> json) list" where
  "track_fields artists =
     [(''id'', JStr ''t1''), (''name'', JStr ''Song''),
      (''external_urls'', JObj [(''spotify'', JStr ''https://open.spotify.com/track/t1'')]),
      (''artists'', JArr artists)]"

definition band :: json where
  "band = JObj [(''name'', JStr ''Band'')]"

definition album_item :: "json list \<Rightarrow> json" where
  "album_item artists = JObj (track_fields artists)"

definition full_track :: json where
  "full_track =
     JObj (track_fields [band] @ [(''album'', JObj [(''id'', JStr ''a1''), (''name'', JStr ''Album'')])])"

definition playlist_item :: json where
  "playlist_item = JObj [(''added_at'', JStr ''2023-01-01T00:00:00Z''), (''track'', full_track)]"

definition discogs_body :: "json list \<Rightarrow> json" where
  "discogs_body results = JObj [(''pagination'', JObj [(''items'', JNum (int (length results)))]),
     (''results'', JArr results)]"

definition with_year :: "json \<Rightarrow> json" where
  "with_year y = JObj [(''type'', JStr ''master''), (''year'', y)]"

text \<open>
  A result of the Discogs search with or without a year, and the years that a list of
  results carries, in the order of the results.
\<close>

definition discogs_result :: "string option \<Rightarrow> json" where
  "discogs_result y =
     (case y of None \<Rightarrow> JObj [(''type'', JStr ''master'')] | Some t \<Rightarrow> with_year (JStr t))"

definition years_of :: "string option list \<Rightarrow> string list" where
  "years_of ys = List.map_filter (\<lambda>y. y) ys"

definition example_releases :: "mb_release list" where
  "example_releases =
     [\<lparr>rel_title = ''Song'', rel_date = Some ''2005-03-01'', rel_credit = None\<rparr>,
      \<lparr>rel_title = ''Hits'', rel_date = Some ''1999-06-01'',
       rel_credit = Some ''Various Artists''\<rparr>]"

definition musicbrainz_body :: "json list \<Rightarrow> json" where
  "musicbrainz_body recordings = JObj [(''count'', JNum (int (length recordings))),
     (''recordings'', JArr recordings)]"

definition musicbrainz_world :: env where
  "musicbrainz_world = quiet_world
     \<lparr>musicbrainz_server := (\<lambda>artist title. Some (Response 200 (Some (musicbrainz_body
        [JObj [(''title'', JStr ''Song''), (''releases'', JArr (map release_json example_releases))]]))))\<rparr>"

text \<open>MusicBrainz finds a recording that is on no release: it has no \<open>releases\<close> field.\<close>

definition standalone_world :: env where
  "standalone_world = quiet_world
     \<lparr>musicbrainz_server := (\<lambda>artist title. Some (Response 200 (Some (musicbrainz_body
        [JObj [(''title'', JStr ''Song'')]]))))\<rparr>"

definition spotify_world :: env where
  "spotify_world = quiet_world
     \<lparr>spotify_album := (\<lambda>album_id. Inr (JObj [(''release_date'', JStr ''1999-05-01'')]))\<rparr>"

text \<open>Discogs is down; MusicBrainz and Spotify would know the year.\<close>

definition discogs_down_world :: env where
  "discogs_down_world = musicbrainz_world
     \<lparr>spotify_album := (\<lambda>album_id. Inr (JObj [(''release_date'', JStr ''1999-05-01'')]))\<rparr>"

text \<open>The same, with Discogs answering with the status 503.\<close>

definition discogs_503_world :: env where
  "discogs_503_world = discogs_down_world
     \<lparr>discogs_server := (\<lambda>artist title. Some (Response 503 None))\<rparr>"

definition discogs_world :: env where
  "discogs_world = quiet_world
     \<lparr>discogs_server := (\<lambda>artist title. Some (Response 200 (Some (discogs_body
        [with_year (JStr ''1998'')]))))\<rparr>"

section \<open>The title normalizer: lemmas\<close>








lemma matcher_shorter: "matcher m \<Longrightarrow> m u = Some t \<Longrightarrow> length t < length u"
  by (simp add: matcher_def)

lemma re_sub_Cons:
  "matcher m \<Longrightarrow> re_sub m (x # xs) =
     (case m (x # xs) of Some t \<Rightarrow> re_sub m t | None \<Rightarrow> x # re_sub m xs)"
  by (auto split: option.splits dest: matcher_shorter)














lemma dropWhile_rev_trim:
  assumes "dropWhile P d = d"
  shows "dropWhile P (rev (dropWhile P (rev d))) = rev (dropWhile P (rev d))"
proof (cases d)
  case Nil
  then show ?thesis by simp
next
  case (Cons a d')
  have na: "\<not> P a"
  proof
    assume "P a"
    with assms Cons have "dropWhile P d' = a # d'" by simp
    then have "length (dropWhile P d') = Suc (length d')" by simp
    then show False using length_dropWhile_le[of P d'] by simp
  qed
  have "dropWhile P (rev d' @ a # []) = dropWhile P (rev d') @ [a]"
    using na by (simp add: dropWhile_append3)
  with Cons na show ?thesis by simp
qed


lemma strip_trimmed:
  "dropWhile is_space (strip s) = strip s \<and> dropWhile is_space (rev (strip s)) = rev (strip s)"
proof -
  let ?d = "dropWhile is_space s"
  have d: "dropWhile is_space ?d = ?d" by simp
  have a: "dropWhile is_space (strip s) = strip s"
    unfolding strip_def using dropWhile_rev_trim[OF d] .
  moreover have "dropWhile is_space (rev (strip s)) = rev (strip s)" by (simp add: strip_def)
  ultimately show ?thesis by simp
qed


lemma re_sub_skip: "m (x # xs) = None \<Longrightarrow> re_sub m (x # xs) = x # re_sub m xs"
  by simp













section \<open>The title normalizer: claims\<close>







section \<open>The date parser: lemmas\<close>













section \<open>The date parser: claim\<close>



section \<open>The MusicBrainz stage: lemmas\<close>

lemma release_tuple_json:
  "rel_date r \<noteq> None \<Longrightarrow> release_tuple (release_json r) = Inr (tuple_of r)"
  by (cases "rel_date r"; cases "rel_credit r")
     (auto simp: release_tuple_def release_json_def bind_err_def tuple_of_def)

lemma contains_date_json:
  "py_contains ''date'' (release_json r) = Inr (rel_date r \<noteq> None)"
  by (cases "rel_date r"; cases "rel_credit r") (auto simp: release_json_def)

lemma release_tuples_json:
  "release_tuples (map release_json rels)
     = Inr (map tuple_of (filter (\<lambda>r. rel_date r \<noteq> None) rels))"
  by (induction rels) (simp_all add: contains_date_json release_tuple_json)

lemma NA_unparseable: "try_parsing_date ''N/A'' = None"
  by code_simp

lemma survivors_json:
  "filter (\<lambda>t. fst (snd t) \<noteq> NA)
     (filter (\<lambda>t. snd (snd t) \<noteq> JStr ''Various Artists'')
        (map tuple_of (filter (\<lambda>r. rel_date r \<noteq> None) rels)))
   = map tuple_of (filter (\<lambda>r. candidate r \<noteq> None) rels)"
proof (induction rels)
  case Nil
  show ?case by simp
next
  case (Cons r rels)
  show ?case
  proof (cases "rel_date r")
    case None
    with Cons show ?thesis by (simp add: candidate_def)
  next
    case (Some d)
    have "d \<noteq> ''N/A''" if "try_parsing_date d \<noteq> None" using that NA_unparseable by auto
    with Some Cons show ?thesis
      by (cases "rel_credit r")
         (auto simp: candidate_def tuple_of_def NA_def split: option.splits)
  qed
qed

lemma map_err_total: "map_err (\<lambda>x. Inr (f x)) xs = Inr (map f xs)"
  by (induction xs) simp_all

lemma those_map_Some: "those (map (\<lambda>x. Some (f x)) xs) = Some (map f xs)"
  by (induction xs) simp_all

lemma insort_key_map:
  "insort_key f (g x) (map g xs) = map g (insort_key (\<lambda>y. f (g y)) x xs)"
  by (induction xs) simp_all

lemma sort_key_map: "sort_key f (map g xs) = map g (sort_key (\<lambda>y. f (g y)) xs)"
  by (induction xs) (simp_all add: insort_key_map)

lemma sort_key_short: "length xs < 2 \<Longrightarrow> sort_key f xs = xs"
  by (cases xs; cases "tl xs") auto

lemma candidate_tuple:
  "candidate r \<noteq> None \<Longrightarrow>
     try_parsing_date_py (fst (snd (tuple_of r))) = Inr (Some (parsed r)) \<and>
     fst (snd (tuple_of r)) = JStr (snd (the (candidate r)))"
  by (auto simp: candidate_def tuple_of_def parsed_def split: option.splits if_splits)

lemma sort_survivors:
  assumes "\<forall>r\<in>set S. candidate r \<noteq> None"
  shows "py_sort_by_date (\<lambda>x. try_parsing_date_py (fst (snd x))) (map tuple_of S)
           = Inr (map tuple_of (sort_key parsed S))"
proof -
  have k: "map_err (\<lambda>x. try_parsing_date_py (fst (snd x))) (map tuple_of S)
             = Inr (map Some (map parsed S))"
  proof -
    have "\<And>r. r \<in> set S \<Longrightarrow>
        try_parsing_date_py (fst (snd (tuple_of r))) = Inr (Some (parsed r))"
      using assms candidate_tuple by blast
    then show ?thesis by (induction S) simp_all
  qed
  show ?thesis
  proof (cases "length S < 2")
    case True
    with k show ?thesis by (simp add: py_sort_by_date_def sort_key_short)
  next
    case False
    have z: "zip (map parsed S) (map tuple_of S) = map (\<lambda>r. (parsed r, tuple_of r)) S"
      by (induction S) simp_all
    from False k show ?thesis
      by (simp add: py_sort_by_date_def those_map_Some z sort_key_map comp_def)
  qed
qed

lemma earliest_release_json:
  assumes "py_getitem0 recordings = Inr recording"
    and "py_getitem recording ''releases'' = Inr (JArr (map release_json rels))"
  shows "earliest_release recordings = Inr (spec_earliest_release rels)"
proof -
  let ?S = "filter (\<lambda>r. candidate r \<noteq> None) rels"
  have s: "py_sort_by_date (\<lambda>x. try_parsing_date_py (fst (snd x))) (map tuple_of ?S)
             = Inr (map tuple_of (sort_key parsed ?S))"
    by (rule sort_survivors) simp
  have m: "sort_key fst (List.map_filter candidate rels)
             = map (\<lambda>r. the (candidate r)) (sort_key parsed ?S)"
    by (simp add: List.map_filter_def sort_key_map comp_def parsed_def[abs_def])
  have c: "\<forall>r\<in>set (sort_key parsed ?S). candidate r \<noteq> None" by simp
  have "earliest_release recordings
          = Inr (case map tuple_of (sort_key parsed ?S) of [] \<Rightarrow> NA | t # _ \<Rightarrow> fst (snd t))"
  proof -
    have "earliest_release recordings
            = (case map tuple_of (sort_key parsed ?S) of
                 [] \<Rightarrow> Inr NA
               | t # _ \<Rightarrow> Inr (fst (snd t)))"
      by (simp only: earliest_release_def assms bind_err_def sum.case py_iter.simps
          release_tuples_json Let_def survivors_json s)
    then show ?thesis by (simp split: list.splits)
  qed
  also have "(case map tuple_of (sort_key parsed ?S) of [] \<Rightarrow> NA | t # _ \<Rightarrow> fst (snd t))
          = spec_earliest_release rels"
  proof (cases "sort_key parsed ?S")
    case Nil
    then show ?thesis by (simp add: spec_earliest_release_def m)
  next
    case (Cons r rs)
    then have "r \<in> set (sort_key parsed ?S)" by simp
    with c have "candidate r \<noteq> None" by blast
    then have "fst (snd (tuple_of r)) = JStr (snd (the (candidate r)))"
      using candidate_tuple by blast
    with Cons show ?thesis by (simp add: spec_earliest_release_def m)
  qed
  finally show ?thesis .
qed

lemma spec_earliest_is_least:
  "spec_earliest_release rels = NA \<and> List.map_filter candidate rels = [] \<or>
   (\<exists>c\<in>set (List.map_filter candidate rels). spec_earliest_release rels = JStr (snd c) \<and>
      (\<forall>c'\<in>set (List.map_filter candidate rels). fst c \<le> fst c'))"
proof (cases "sort_key fst (List.map_filter candidate rels)")
  case Nil
  then have "List.map_filter candidate rels = []"
    by (metis length_sort length_0_conv)
  with Nil show ?thesis by (simp add: spec_earliest_release_def)
next
  case (Cons c cs)
  have "sorted (map fst (sort_key fst (List.map_filter candidate rels)))" by (rule sorted_sort_key)
  with Cons have "\<forall>c'\<in>set (c # cs). fst c \<le> fst c'" by auto
  moreover have e: "set (c # cs) = set (List.map_filter candidate rels)"
    using Cons set_sort by metis
  ultimately have le: "\<forall>c'\<in>set (List.map_filter candidate rels). fst c \<le> fst c'"
    unfolding e[symmetric] by blast
  have cin: "c \<in> set (List.map_filter candidate rels)" using e by auto
  have sp: "spec_earliest_release rels = JStr (snd c)"
    using Cons by (simp add: spec_earliest_release_def)
  from cin sp le show ?thesis by blast
qed

lemma musicbrainz_refines:
  assumes "musicbrainz_server world artist (clean_song_title title) = Some (Response 200 (Some body))"
    and "py_getitem body ''recordings'' = Inr (JArr (recording # others))"
    and "py_getitem recording ''releases'' = Inr (JArr (map release_json rels))"
  shows "get_release_year_musicbrainz world artist (JStr title)
           = ([MusicBrainzSearch artist (clean_song_title title)], Inr (spec_earliest_release rels))"
  using assms earliest_release_json[of "JArr (recording # others)" recording rels]
  by (simp add: get_release_year_musicbrainz_def raises_for_status_def)

section \<open>The Discogs stage: lemmas\<close>

lemma years_of_simps:
  "years_of [] = []"
  "years_of (None # ys) = years_of ys"
  "years_of (Some t # ys) = t # years_of ys"
  by (simp_all add: years_of_def List.map_filter_def)

lemma discogs_result_simps:
  "py_contains ''year'' (discogs_result None) = Inr False"
  "py_contains ''year'' (with_year y) = Inr True"
  "discogs_result (Some t) = with_year (JStr t)"
  by (simp_all add: discogs_result_def with_year_def)

lemma results_with_year:
  "filter_err (py_contains ''year'') (map discogs_result ys)
     = Inr (map (\<lambda>t. with_year (JStr t)) (years_of ys))"
proof (induction ys)
  case Nil
  show ?case by (simp add: years_of_simps)
next
  case (Cons y ys)
  then show ?case
    by (cases y) (simp_all add: years_of_simps discogs_result_simps)
qed

lemma year_keys:
  "map_err (\<lambda>x. py_getitem x ''year'') (map (\<lambda>t. with_year (JStr t)) ts) = Inr (map JStr ts)"
  by (induction ts) (simp_all add: with_year_def)

lemma sort_results_with_year:
  "py_sort_by (\<lambda>x. py_getitem x ''year'') (map (\<lambda>t. with_year (JStr t)) ts)
     = Inr (map (\<lambda>t. with_year (JStr t)) (sort_key (\<lambda>t. t) ts))"
proof (cases "length ts < 2")
  case True
  then show ?thesis by (simp add: py_sort_by_def year_keys sort_key_short)
next
  case False
  then obtain t ts' where ts: "ts = t # ts'" by (cases ts) auto
  have n: "\<not> list_all is_num (map JStr ts)" using ts by simp
  have a: "list_all is_str (map JStr ts)" by (induction ts) simp_all
  have z: "zip (map JStr ts) (map (\<lambda>t. with_year (JStr t)) ts)
             = map (\<lambda>t. (JStr t, with_year (JStr t))) ts"
    by (induction ts) simp_all
  from False n a show ?thesis
    by (simp add: py_sort_by_def year_keys z sort_key_map comp_def)
qed

lemma hd_sort_Min: "xs \<noteq> [] \<Longrightarrow> hd (sort_key (\<lambda>t. t) xs) = Min (set xs)"
proof -
  assume ne: "xs \<noteq> []"
  let ?s = "sort_key (\<lambda>t. t) xs"
  have s: "sorted ?s" using sorted_sort_key[of "\<lambda>t. t" xs] by simp
  have st: "set ?s = set xs" by simp
  from ne have "?s \<noteq> []" by (metis length_sort length_0_conv)
  then obtain y ys where c: "?s = y # ys" by (cases ?s) auto
  with s have "\<forall>z\<in>set ?s. y \<le> z" by auto
  then have "\<forall>z\<in>set xs. y \<le> z" using st by simp
  moreover have "y \<in> set xs" using c st by (metis list.set_intros(1))
  ultimately have "Min (set xs) = y" by (intro Min_eqI) auto
  with c show ?thesis by simp
qed

lemma discogs_earliest:
  assumes "years_of ys \<noteq> []"
  shows "extract_year_from_discogs_data world (discogs_body (map discogs_result ys)) artist title item
           = ([], Inr (JStr (Min (set (years_of ys)))))"
proof -
  let ?s = "sort_key (\<lambda>t. t) (years_of ys)"
  from assms have "?s \<noteq> []" by (metis length_sort length_0_conv)
  then obtain y rest where c: "?s = y # rest" by (cases ?s) auto
  have y: "y = Min (set (years_of ys))" using hd_sort_Min[OF assms] c by simp
  have "extract_year_from_discogs_data world (discogs_body (map discogs_result ys)) artist title item
          = ([], py_getitem (with_year (JStr y)) ''year'')"
    by (simp add: extract_year_from_discogs_data_def discogs_body_def bind_err_def
        results_with_year sort_results_with_year c)
  then show ?thesis by (simp add: with_year_def y)
qed

section \<open>The track pipeline: lemmas\<close>

lemma add_track_to_data_cases:
  "add_track_to_data world item d spotify_type = (sent, r, d') \<Longrightarrow>
     d' = d \<or> (r = None \<and> (\<exists>artist title year url qr. d' = append_track d artist title year url qr))"
  by (fastforce simp: add_track_to_data_def Let_def split: option.splits prod.splits sum.splits if_splits)

lemma add_track_to_data_raise:
  "add_track_to_data world item d spotify_type = (sent, Some e, d') \<Longrightarrow> d' = d"
  by (auto simp: add_track_to_data_def Let_def split: option.splits prod.splits sum.splits if_splits)

lemma add_track_to_data_no_info:
  "extract_track_info item spotify_type = None \<Longrightarrow> add_track_to_data world item d spotify_type = ([], None, d)"
  by (simp add: add_track_to_data_def)

lemma columns_equal_append:
  "columns_equal d \<Longrightarrow> columns_equal (append_track d artist title year url qr)"
  by (simp add: columns_equal_def append_track_def)

lemma add_track_to_data_columns:
  "columns_equal d \<Longrightarrow> columns_equal (snd (snd (add_track_to_data world item d spotify_type)))"
proof -
  assume c: "columns_equal d"
  obtain sent r d' where a: "add_track_to_data world item d spotify_type = (sent, r, d')"
    by (cases "add_track_to_data world item d spotify_type") auto
  from add_track_to_data_cases[OF a] c have "columns_equal d'"
    by (auto simp: columns_equal_append)
  with a show ?thesis by simp
qed

lemma add_items_columns:
  "columns_equal d \<Longrightarrow> columns_equal (snd (snd (add_items world items d spotify_type)))"
proof (induction items arbitrary: d)
  case Nil
  then show ?case by simp
next
  case (Cons item items)
  obtain sent r d' where a: "add_track_to_data world item d spotify_type = (sent, r, d')"
    by (cases "add_track_to_data world item d spotify_type") auto
  have c: "columns_equal d'" using add_track_to_data_columns[OF Cons.prems, of world item spotify_type] a by simp
  show ?case
  proof (cases r)
    case None
    obtain sent' r' d'' where b: "add_items world items d' spotify_type = (sent', r', d'')"
      by (cases "add_items world items d' spotify_type") auto
    with Cons.IH[OF c] have "columns_equal d''" by simp
    with a None b show ?thesis by simp
  next
    case (Some e)
    with a c show ?thesis by simp
  qed
qed

lemma add_tracks_to_data_columns:
  "columns_equal d \<Longrightarrow> columns_equal (snd (snd (add_tracks_to_data world results d spotify_type)))"
  by (simp add: add_tracks_to_data_def add_items_columns split: sum.splits)

lemma fetch_and_add_columns:
  "columns_equal d \<Longrightarrow>
     columns_equal (snd (snd (fetch_and_add_additional_tracks fuel world results d spotify_type)))"
proof (induction fuel arbitrary: results d)
  case 0
  then show ?case by simp
next
  case (Suc fuel)
  show ?case
  proof (cases "py_getitem results ''next''")
    case (Inl e)
    with Suc.prems show ?thesis by simp
  next
    case (Inr next_url)
    show ?thesis
    proof (cases "spotify_next world results")
      case (Inl e)
      with Inr Suc.prems show ?thesis by simp
    next
      case n: (Inr results')
      obtain sent r d' where a: "add_tracks_to_data world results' d spotify_type = (sent, r, d')"
        by (cases "add_tracks_to_data world results' d spotify_type") auto
      have c: "columns_equal d'"
        using add_tracks_to_data_columns[OF Suc.prems, of world results' spotify_type] a by simp
      show ?thesis
      proof (cases r)
        case None
        obtain sent' r' d'' where
          b: "fetch_and_add_additional_tracks fuel world results' d' spotify_type = (sent', r', d'')"
          by (cases "fetch_and_add_additional_tracks fuel world results' d' spotify_type") auto
        with Suc.IH[OF c, of results'] have "columns_equal d''" by simp
        with Inr n a None b Suc.prems show ?thesis by simp
      next
        case (Some e)
        with Inr n a c Suc.prems show ?thesis by simp
      qed
    qed
  qed
qed

lemma columns_equal_empty: "columns_equal empty_data"
  by (simp add: columns_equal_def empty_data_def)

section \<open>The MusicBrainz stage: claim\<close>

lemma musicbrainz_world_answer:
  "get_release_year_musicbrainz musicbrainz_world artist (JStr title)
     = ([MusicBrainzSearch artist (clean_song_title title)], Inr (spec_earliest_release example_releases))"
  by (rule musicbrainz_refines[where recording = "JObj [(''title'', JStr ''Song''),
        (''releases'', JArr (map release_json example_releases))]" and others = "[]"
        and body = "musicbrainz_body [JObj [(''title'', JStr ''Song''),
        (''releases'', JArr (map release_json example_releases))]]"])
     (simp_all add: musicbrainz_world_def quiet_world_def musicbrainz_body_def)

lemma example_earliest: "spec_earliest_release example_releases = JStr ''2005-03-01''"
  by code_simp

lemma musicbrainz_example:
  assumes "years_of ys = []"
  shows "extract_year_from_discogs_data musicbrainz_world (discogs_body (map discogs_result ys))
           artist (JStr title) item
         = ([MusicBrainzSearch artist (clean_song_title title)], Inr (JStr ''2005''))"
proof -
  have "py_sort_by (\<lambda>x. py_getitem x ''year'') [] = Inr ([] :: json list)"
    by (simp add: py_sort_by_def)
  then show ?thesis
    using assms
    by (simp add: extract_year_from_discogs_data_def discogs_body_def bind_err_def
        results_with_year musicbrainz_world_answer example_earliest NA_def)
qed

text \<open>
  Claim C6. Let MusicBrainz answer with the status 200 and a body whose \<open>recordings\<close> is a
  list that starts with a recording whose \<open>releases\<close> are the JSON of the releases \<open>rels\<close>;
  the other recordings are arbitrary. Then the MusicBrainz stage returns what the
  specification says of \<open>rels\<close>: among the releases that have a date which the date parser
  reads and that are not credited to \<open>Various Artists\<close>, the date of the first one in the
  ascending, stable order of the parsed dates, or \<open>"N/A"\<close> when no release is left. That
  date is a least one among the candidates. With the releases of the example, one of
  2005-03-01 and one of 1999-06-01 credited to \<open>Various Artists\<close>, and Discogs results
  that carry no year, the resolver returns \<open>2005\<close>.
\<close>

theorem musicbrainz_stage:
  "(musicbrainz_server world artist (clean_song_title title) = Some (Response 200 (Some body)) \<and>
    py_getitem body ''recordings'' = Inr (JArr (recording # others)) \<and>
    py_getitem recording ''releases'' = Inr (JArr (map release_json rels)) \<longrightarrow>
      get_release_year_musicbrainz world artist (JStr title)
        = ([MusicBrainzSearch artist (clean_song_title title)], Inr (spec_earliest_release rels))) \<and>
   (spec_earliest_release rels = NA \<and> List.map_filter candidate rels = [] \<or>
    (\<exists>c\<in>set (List.map_filter candidate rels). spec_earliest_release rels = JStr (snd c) \<and>
       (\<forall>c'\<in>set (List.map_filter candidate rels). fst c \<le> fst c'))) \<and>
   (years_of ys = [] \<longrightarrow>
      extract_year_from_discogs_data musicbrainz_world (discogs_body (map discogs_result ys))
        artist (JStr title) item
      = ([MusicBrainzSearch artist (clean_song_title title)], Inr (JStr ''2005'')))"
  using musicbrainz_refines[of world artist title body recording others rels]
    spec_earliest_is_least[of rels] musicbrainz_example[of ys artist title item]
  by blast

theorem musicbrainz_stage_witness:
  "musicbrainz_server standalone_world (JStr ''Band'') (clean_song_title ''Song (Live)'')
     = Some (Response 200 (Some (musicbrainz_body [JObj [(''title'', JStr ''Song'')]]))) \<and>
   get_release_year_musicbrainz
     (standalone_world\<lparr>musicbrainz_server := (\<lambda>artist title. Some (Response 200 (Some
        (musicbrainz_body [JObj [(''releases'', JArr (map release_json
           [\<lparr>rel_title = ''Song'', rel_date = Some ''1994'', rel_credit = Some ''Band''\<rparr>,
            \<lparr>rel_title = ''Song'', rel_date = Some ''1993-11-02'', rel_credit = None\<rparr>,
            \<lparr>rel_title = ''Song'', rel_date = None, rel_credit = None\<rparr>,
            \<lparr>rel_title = ''Song'', rel_date = Some ''93'', rel_credit = None\<rparr>]))],
          JNull]))))\<rparr>)
     (JStr ''Band'') (JStr ''Song (Live)'')
     = ([MusicBrainzSearch (JStr ''Band'') ''Song''], Inr (JStr ''1993-11-02'')) \<and>
   extract_year_from_discogs_data musicbrainz_world (discogs_body (map discogs_result [None]))
     (JStr ''Band'') (JStr ''Song (Live)'') full_track
     = ([MusicBrainzSearch (JStr ''Band'') ''Song''], Inr (JStr ''2005''))"
proof -
  let ?rels = "[\<lparr>rel_title = ''Song'', rel_date = Some ''1994'', rel_credit = Some ''Band''\<rparr>,
            \<lparr>rel_title = ''Song'', rel_date = Some ''1993-11-02'', rel_credit = None\<rparr>,
            \<lparr>rel_title = ''Song'', rel_date = None, rel_credit = None\<rparr>,
            \<lparr>rel_title = ''Song'', rel_date = Some ''93'', rel_credit = None\<rparr>]"
  let ?recording = "JObj [(''releases'', JArr (map release_json ?rels))]"
  let ?body = "musicbrainz_body [?recording, JNull]"
  let ?world = "standalone_world\<lparr>musicbrainz_server := (\<lambda>artist title. Some (Response 200 (Some ?body)))\<rparr>"
  have c: "clean_song_title ''Song (Live)'' = ''Song''" by code_simp
  have a: "musicbrainz_server standalone_world (JStr ''Band'') (clean_song_title ''Song (Live)'')
     = Some (Response 200 (Some (musicbrainz_body [JObj [(''title'', JStr ''Song'')]])))"
    by (simp add: standalone_world_def)
  have h1: "musicbrainz_server ?world (JStr ''Band'') (clean_song_title ''Song (Live)'')
     = Some (Response 200 (Some ?body))" by simp
  have h2: "py_getitem ?body ''recordings'' = Inr (JArr (?recording # [JNull]))"
    by (simp add: musicbrainz_body_def)
  have h3: "py_getitem ?recording ''releases'' = Inr (JArr (map release_json ?rels))" by simp
  have s: "spec_earliest_release ?rels = JStr ''1993-11-02''" by code_simp
  have y: "years_of [None] = []" by (simp add: years_of_simps)
  from musicbrainz_stage[of ?world "JStr ''Band''" "''Song (Live)''" ?body ?recording "[JNull]" ?rels
      "[None]" full_track] h1 h2 h3 y
  have "get_release_year_musicbrainz ?world (JStr ''Band'') (JStr ''Song (Live)'')
          = ([MusicBrainzSearch (JStr ''Band'') (clean_song_title ''Song (Live)'')],
             Inr (spec_earliest_release ?rels)) \<and>
        extract_year_from_discogs_data musicbrainz_world (discogs_body (map discogs_result [None]))
          (JStr ''Band'') (JStr ''Song (Live)'') full_track
          = ([MusicBrainzSearch (JStr ''Band'') (clean_song_title ''Song (Live)'')], Inr (JStr ''2005''))"
    by blast
  with a show ?thesis unfolding c s by blast
qed

section \<open>The resolver: claims\<close>

text \<open>
  Claim C5. For the Discogs results with the years 2001, 1998 and 2010 (Discogs sends a
  year as a string) the resolver returns \<open>1998\<close> and sends no request, whatever the world,
  the artist, the title and the item are. In general, when at least one result carries a
  year, the resolver returns the least of the years that the results carry and sends no
  request.
\<close>

theorem discogs_earliest_wins:
  "extract_year_from_discogs_data world
     (discogs_body [with_year (JStr ''2001''), with_year (JStr ''1998''), with_year (JStr ''2010'')])
     artist title item
     = ([], Inr (JStr ''1998'')) \<and>
   (years_of ys \<noteq> [] \<longrightarrow>
      extract_year_from_discogs_data world (discogs_body (map discogs_result ys)) artist title item
        = ([], Inr (JStr (Min (set (years_of ys))))))"
proof -
  have "extract_year_from_discogs_data world
     (discogs_body [with_year (JStr ''2001''), with_year (JStr ''1998''), with_year (JStr ''2010'')])
     artist title item = ([], Inr (JStr ''1998''))"
    by (simp add: extract_year_from_discogs_data_def discogs_body_def with_year_def bind_err_def
        py_sort_by_def)
  then show ?thesis using discogs_earliest[of ys world artist title item] by blast
qed

theorem discogs_earliest_wins_witness:
  "years_of [Some ''2001'', None, Some ''1998'', Some ''2010''] = [''2001'', ''1998'', ''2010''] \<and>
   extract_year_from_discogs_data discogs_down_world
     (discogs_body (map discogs_result [Some ''2001'', None, Some ''1998'', Some ''2010'']))
     (JStr ''Band'') (JStr ''Song'') full_track
     = ([], Inr (JStr ''1998''))"
proof -
  have y: "years_of [Some ''2001'', None, Some ''1998'', Some ''2010''] = [''2001'', ''1998'', ''2010'']"
    by (simp add: years_of_simps)
  have m: "Min (set [''2001'', ''1998'', ''2010'']) = ''1998''" by simp
  from discogs_earliest_wins[of discogs_down_world "JStr ''Band''" "JStr ''Song''" full_track
      "[Some ''2001'', None, Some ''1998'', Some ''2010'']"]
  show ?thesis unfolding y m by simp
qed

text \<open>
  Claim C1 holds of the specification and fails in the code: exceptions leave the
  resolver. A playlist item keeps the album inside \<open>track\<close>, where \<open>extract_track_info\<close>
  looks for it, but the last branch of the resolver reads \<open>item["album"]\<close>: with a Discogs
  answer without \<open>results\<close> and no date from MusicBrainz, a \<open>KeyError\<close> leaves the resolver.
  With no Discogs result and a first MusicBrainz recording that has no \<open>releases\<close>, a
  \<open>KeyError\<close> leaves it as well, and so does the exception of a failing \<open>spotify.album\<close>.
\<close>

theorem resolver_raises:
  "extract_year_from_discogs_data quiet_world (JObj [(''message'', JStr ''no results'')])
     (JStr ''Band'') (JStr ''Song'') playlist_item
     = ([MusicBrainzSearch (JStr ''Band'') ''Song''], Inl KeyError) \<and>
   extract_year_from_discogs_data standalone_world (discogs_body [])
     (JStr ''Band'') (JStr ''Song'') playlist_item
     = ([MusicBrainzSearch (JStr ''Band'') ''Song''], Inl KeyError) \<and>
   extract_year_from_discogs_data quiet_world (JObj [(''message'', JStr ''no results'')])
     (JStr ''Band'') (JStr ''Song'') full_track
     = ([MusicBrainzSearch (JStr ''Band'') ''Song'', SpotifyAlbum (JStr ''a1'')],
        Inl SpotifyException)"
  by code_simp

text \<open>
  Claim C3 holds of the specification and fails in the code: when the Discogs answer has
  \<open>results\<close>, none of them with a year, and MusicBrainz has no date, the resolver returns
  \<open>"N/A"\<close> and does not ask Spotify, although Spotify knows the album's date. When the
  Discogs answer has no \<open>results\<close> at all, the same world and item give \<open>1999\<close>.
\<close>

theorem spotify_fallback_skipped:
  "extract_year_from_discogs_data spotify_world (discogs_body [])
     (JStr ''Band'') (JStr ''Song'') full_track
     = ([MusicBrainzSearch (JStr ''Band'') ''Song''], Inr (JStr ''N/A'')) \<and>
   extract_year_from_discogs_data spotify_world (JObj [])
     (JStr ''Band'') (JStr ''Song'') full_track
     = ([MusicBrainzSearch (JStr ''Band'') ''Song'', SpotifyAlbum (JStr ''a1'')], Inr (JStr ''1999''))"
  by code_simp

section \<open>The track pipeline: claims\<close>

text \<open>
  Claim C10. One call of \<open>add_track_to_data\<close> leaves the data as they are or appends
  exactly one element to each of the five lists; it leaves them as they are when the
  extraction of the track fails and when an exception leaves the call. The data of \<open>main\<close>
  start with five empty lists, and \<open>add_track_to_data\<close>, \<open>add_tracks_to_data\<close> and every
  number of rounds of \<open>fetch_and_add_additional_tracks\<close> keep the five lists equally
  long, also when they end with an exception.
\<close>

theorem columns_stay_equal:
  "(\<forall>sent r d'. add_track_to_data world item d spotify_type = (sent, r, d') \<longrightarrow>
      d' = d \<or> (r = None \<and> (\<exists>artist title year url qr. d' = append_track d artist title year url qr))) \<and>
   (extract_track_info item spotify_type = None \<longrightarrow> snd (snd (add_track_to_data world item d spotify_type)) = d) \<and>
   (\<forall>sent e d'. add_track_to_data world item d spotify_type = (sent, Some e, d') \<longrightarrow> d' = d) \<and>
   columns_equal empty_data \<and>
   (columns_equal d \<longrightarrow>
      columns_equal (snd (snd (add_track_to_data world item d spotify_type))) \<and>
      columns_equal (snd (snd (add_tracks_to_data world results d spotify_type))) \<and>
      columns_equal (snd (snd (fetch_and_add_additional_tracks fuel world results d spotify_type))))"
  using add_track_to_data_cases[of world item d spotify_type] add_track_to_data_raise[of world item d spotify_type]
    add_track_to_data_no_info[of item spotify_type world d] columns_equal_empty
    add_track_to_data_columns[of d world item spotify_type] add_tracks_to_data_columns[of d world results spotify_type]
    fetch_and_add_columns[of d fuel world results spotify_type]
  by (intro conjI allI impI) auto

theorem columns_stay_equal_witness:
  "columns_equal empty_data \<and>
   columns_equal (snd (snd (add_track_to_data discogs_world (album_item [band]) empty_data ''album''))) \<and>
   Year (snd (snd (add_track_to_data discogs_world (album_item [band]) empty_data ''album'')))
     = [JStr ''1998''] \<and>
   add_track_to_data standalone_world playlist_item empty_data ''album'' = ([], None, empty_data)"
proof -
  have y: "Year (snd (snd (add_track_to_data discogs_world (album_item [band]) empty_data ''album'')))
     = [JStr ''1998'']" by code_simp
  have n: "extract_track_info playlist_item ''album'' = None" by code_simp
  have e: "snd (snd (add_track_to_data standalone_world playlist_item empty_data ''album'')) = empty_data
    \<Longrightarrow> add_track_to_data standalone_world playlist_item empty_data ''album'' = ([], None, empty_data)"
    using n by (simp add: add_track_to_data_def)
  from columns_stay_equal[of discogs_world "album_item [band]" empty_data "''album''" JNull 0]
  have a: "columns_equal empty_data \<and>
    columns_equal (snd (snd (add_track_to_data discogs_world (album_item [band]) empty_data ''album'')))"
    by blast
  from columns_stay_equal[of standalone_world playlist_item empty_data "''album''" JNull 0] n
  have "snd (snd (add_track_to_data standalone_world playlist_item empty_data ''album'')) = empty_data"
    by blast
  with a y e show ?thesis by blast
qed

text \<open>
  Claim C2, as the code has it. When the request to Discogs fails (no answer, or an
  answer with a status from 400 to 599), \<open>fetch_discogs_data\<close> returns \<open>None\<close> and
  \<open>add_track_to_data\<close> returns at once: no exception is raised, no later source is asked,
  and the track is dropped, the data staying as they were.
\<close>

theorem discogs_failure_drops_track:
  "extract_track_info item spotify_type = Some info \<Longrightarrow>
   request_failed (discogs_server world (first_artist (ti_artists info)) (ti_name info)) \<Longrightarrow>
   add_track_to_data world item d spotify_type
     = ([DiscogsSearch (first_artist (ti_artists info)) (ti_name info)], None, d)"
  by (cases "discogs_server world (first_artist (ti_artists info)) (ti_name info)")
     (auto simp: add_track_to_data_def fetch_discogs_data_def Let_def split: response.splits)

theorem discogs_failure_drops_track_witness:
  "extract_track_info playlist_item ''playlist''
     = Some \<lparr>ti_id = JStr ''t1'', ti_name = JStr ''Song'', ti_artists = [JStr ''Band''],
             ti_album = JStr ''Album'', ti_url = JStr ''https://open.spotify.com/track/t1''\<rparr> \<and>
   request_failed (discogs_server discogs_503_world (JStr ''Band'') (JStr ''Song'')) \<and>
   add_track_to_data discogs_503_world playlist_item empty_data ''playlist''
     = ([DiscogsSearch (JStr ''Band'') (JStr ''Song'')], None, empty_data)"
proof -
  let ?info = "\<lparr>ti_id = JStr ''t1'', ti_name = JStr ''Song'', ti_artists = [JStr ''Band''],
             ti_album = JStr ''Album'', ti_url = JStr ''https://open.spotify.com/track/t1''\<rparr>"
  have a: "extract_track_info playlist_item ''playlist'' = Some ?info" by code_simp
  have f: "first_artist (ti_artists ?info) = JStr ''Band''" by (simp add: first_artist_def)
  have b: "request_failed (discogs_server discogs_503_world (first_artist (ti_artists ?info)) (ti_name ?info))"
    by (simp add: discogs_503_world_def raises_for_status_def)
  from discogs_failure_drops_track[OF a b, of empty_data] a b show ?thesis
    unfolding f by simp
qed

text \<open>
  Claim C2 as stated fails: Discogs is down, MusicBrainz and Spotify know the year, and
  the track gets no year: only Discogs is asked and nothing is appended.
\<close>

theorem discogs_failure_ends_resolution:
  "add_track_to_data discogs_down_world (album_item [band]) empty_data ''album''
     = ([DiscogsSearch (JStr ''Band'') (JStr ''Song'')], None, empty_data) \<and>
   snd (get_release_year_musicbrainz discogs_down_world (JStr ''Band'') (JStr ''Song''))
     = Inr (JStr ''2005-03-01'')"
  by code_simp




end
